theory Spec2Isabelle
  imports Complex_Main "HOL-Library.Word"
begin

section \<open>JavaScript strings\<close>

text \<open>
  A JavaScript string is a sequence of UTF-16 code units, and \<open>length\<close> counts code
  units. \<open>js\<close> turns an ASCII literal into such a string.
\<close>

type_synonym jschar = "16 word"
type_synonym jsstring = "jschar list"

definition js :: "string \<Rightarrow> jsstring" where
  "js s = map (\<lambda>c. word_of_nat (of_char c)) s"

text \<open>\<open>String.prototype.startsWith(p)\<close> and \<open>String.prototype.substring(n)\<close>.\<close>

definition startsWith :: "jsstring \<Rightarrow> jsstring \<Rightarrow> bool" where
  "startsWith s p = (take (length p) s = p)"

definition substring :: "jsstring \<Rightarrow> nat \<Rightarrow> jsstring" where
  "substring s n = drop n s"

text \<open>
  \<open>String.prototype.trim()\<close> removes WhiteSpace and LineTerminator code units from
  both ends: TAB, LF, VT, FF, CR, SP, NBSP, U+1680, U+2000 to U+200A, U+2028, U+2029,
  U+202F, U+205F, U+3000 and U+FEFF.
\<close>

definition isWhiteSpace :: "jschar \<Rightarrow> bool" where
  "isWhiteSpace c =
     ((0x09 \<le> c \<and> c \<le> 0x0D) \<or> c = 0x20 \<or> c = 0xA0 \<or> c = 0x1680
      \<or> (0x2000 \<le> c \<and> c \<le> 0x200A) \<or> c = 0x2028 \<or> c = 0x2029 \<or> c = 0x202F
      \<or> c = 0x205F \<or> c = 0x3000 \<or> c = 0xFEFF)"

definition trim :: "jsstring \<Rightarrow> jsstring" where
  "trim s = rev (dropWhile isWhiteSpace (rev (dropWhile isWhiteSpace s)))"

text \<open>
  \<open>String.prototype.split(sep)\<close>: the segments between the occurrences of \<open>sep\<close>,
  found left to right without overlap. The empty string gives one empty segment; an empty
  separator cuts the string into its code units.
\<close>

function split_from :: "jsstring \<Rightarrow> jsstring \<Rightarrow> jsstring \<Rightarrow> jsstring list" where
  "split_from sep acc [] = [rev acc]"
| "split_from sep acc (c # cs) =
     (if sep \<noteq> [] \<and> startsWith (c # cs) sep
      then rev acc # split_from sep [] (drop (length sep) (c # cs))
      else split_from sep (c # acc) cs)"
  by pat_completeness auto
termination
  by (relation "measure (\<lambda>(sep, acc, s). length s)") auto

definition split :: "jsstring \<Rightarrow> jsstring \<Rightarrow> jsstring list" where
  "split s sep = (if sep = [] then map (\<lambda>c. [c]) s else split_from sep [] s)"

text \<open>
  \<open>Array.prototype.join(sep)\<close> on an array whose elements are strings or
  \<open>undefined\<close> (\<open>None\<close>): an undefined element contributes the empty string.
\<close>

fun join :: "jsstring option list \<Rightarrow> jsstring \<Rightarrow> jsstring" where
  "join [] sep = []"
| "join [x] sep = (case x of None \<Rightarrow> [] | Some s \<Rightarrow> s)"
| "join (x # y # ys) sep = (case x of None \<Rightarrow> [] | Some s \<Rightarrow> s) @ sep @ join (y # ys) sep"

text \<open>The decimal digits of a non-negative integer, as number-to-string conversion gives them.\<close>

fun decimal :: "nat \<Rightarrow> jsstring" where
  "decimal n =
     (if n < 10 then [0x30 + word_of_nat n]
      else decimal (n div 10) @ [0x30 + word_of_nat (n mod 10)])"

section \<open>JavaScript values and errors\<close>

text \<open>
  A number is kept as the decimal it was written as: sign, coefficient and exponent of
  ten. The rounding to a double is outside the model; nothing below computes with numbers.
\<close>

datatype number = Decimal bool nat int

text \<open>
  The values that \<open>JSON.parse\<close> and object literals over its results can produce. An
  object is its list of own properties; the program reads properties by key only, so
  the enumeration order of keys is not modelled.
\<close>

datatype jsval =
    Undefined
  | Null
  | Bool bool
  | Num number
  | Str jsstring
  | Arr "jsval list"
  | Obj "(jsstring \<times> jsval) list"

datatype js_error =
    TypeError
  | SyntaxError
  | Error jsstring

text \<open>Sequencing of computations that may throw.\<close>

definition and_then :: "js_error + 'a \<Rightarrow> ('a \<Rightarrow> js_error + 'b) \<Rightarrow> js_error + 'b" where
  "and_then r f = (case r of Inl e \<Rightarrow> Inl e | Inr x \<Rightarrow> f x)"

text \<open>
  The own enumerable properties of a value, as object spread copies them: the properties
  of an object, the indexed elements of an array, the indexed code units of a string,
  and none for the other primitives.
\<close>

fun own_props :: "jsval \<Rightarrow> (jsstring \<times> jsval) list" where
  "own_props (Obj ps) = ps"
| "own_props (Arr xs) = zip (map decimal [0..<length xs]) xs"
| "own_props (Str s) = zip (map decimal [0..<length s]) (map (\<lambda>c. Str [c]) s)"
| "own_props _ = []"

text \<open>
  Reading a property of a value other than \<open>undefined\<close> and \<open>null\<close>. Besides the own
  enumerable properties, arrays and strings have \<open>length\<close>. Properties inherited from
  the prototypes are not modelled: none of the keys the program reads (\<open>choices\<close>,
  \<open>index\<close>, \<open>message\<close>, \<open>delta\<close>, \<open>content\<close>, \<open>finish_reason\<close>, \<open>temperature\<close>,
  \<open>maxOutputTokens\<close>, \<open>0\<close>) is defined on one.
\<close>

fun get_own :: "jsval \<Rightarrow> jsstring \<Rightarrow> jsval" where
  "get_own v k =
     (case map_of (own_props v) k of
        Some x \<Rightarrow> x
      | None \<Rightarrow>
          (if k = js ''length'' then
             (case v of
                Arr xs \<Rightarrow> Num (Decimal False (length xs) 0)
              | Str s \<Rightarrow> Num (Decimal False (length s) 0)
              | _ \<Rightarrow> Undefined)
           else Undefined))"

text \<open>\<open>v.k\<close> and \<open>v[k]\<close>: a TypeError on \<open>undefined\<close> and \<open>null\<close>.\<close>

fun get_prop :: "jsval \<Rightarrow> jsstring \<Rightarrow> js_error + jsval" where
  "get_prop Undefined k = Inl TypeError"
| "get_prop Null k = Inl TypeError"
| "get_prop v k = Inr (get_own v k)"

text \<open>\<open>v?.k\<close>: \<open>undefined\<close> on \<open>undefined\<close> and \<open>null\<close>.\<close>

fun get_optional :: "jsval \<Rightarrow> jsstring \<Rightarrow> jsval" where
  "get_optional Undefined k = Undefined"
| "get_optional Null k = Undefined"
| "get_optional v k = get_own v k"

text \<open>
  Defining a property in an object literal: an existing key keeps its place and takes
  the new value, a new key is added.
\<close>

fun set_prop :: "(jsstring \<times> jsval) list \<Rightarrow> jsstring \<Rightarrow> jsval \<Rightarrow> (jsstring \<times> jsval) list" where
  "set_prop [] k v = [(k, v)]"
| "set_prop ((k', v') # ps) k v = (if k' = k then (k, v) # ps else (k', v') # set_prop ps k v)"

text \<open>
  \<open>xs.map(f)\<close> where \<open>xs\<close> is any value: a TypeError unless \<open>xs\<close> is an array
  (reading \<open>map\<close> of \<open>undefined\<close> or \<open>null\<close> throws, and on any other value \<open>map\<close>
  is not a function); on an array the callback runs on the elements in order, and the
  first one that throws ends the call.
\<close>

fun map_throwing :: "('a \<Rightarrow> js_error + 'b) \<Rightarrow> 'a list \<Rightarrow> js_error + 'b list" where
  "map_throwing f [] = Inr []"
| "map_throwing f (x # xs) =
     and_then (f x) (\<lambda>y. and_then (map_throwing f xs) (\<lambda>ys. Inr (y # ys)))"

fun array_map :: "jsval \<Rightarrow> (jsval \<Rightarrow> js_error + 'b) \<Rightarrow> js_error + 'b list" where
  "array_map (Arr xs) f = map_throwing f xs"
| "array_map _ f = Inl TypeError"

section \<open>JSON.parse\<close>

text \<open>
  \<open>JSON.parse\<close> is the platform's; it is modelled after the JSON grammar (ECMA-404) in
  two passes, a lexer and a parser driven by a stack, and it throws a SyntaxError on
  every text the grammar rejects. No two value tokens are ever adjacent in a JSON text,
  so lexing first accepts exactly the texts of the grammar.
\<close>

datatype token =
    LBrace | RBrace | LBrack | RBrack | Colon | Comma
  | TStr jsstring | TNum number | TTrue | TFalse | TNull

definition isJsonWhiteSpace :: "jschar \<Rightarrow> bool" where
  "isJsonWhiteSpace c = (c = 0x20 \<or> c = 0x09 \<or> c = 0x0A \<or> c = 0x0D)"

definition isDigit :: "jschar \<Rightarrow> bool" where
  "isDigit c = (0x30 \<le> c \<and> c \<le> 0x39)"

definition hex_value :: "jschar \<Rightarrow> jschar option" where
  "hex_value c =
     (if 0x30 \<le> c \<and> c \<le> 0x39 then Some (c - 0x30)
      else if 0x41 \<le> c \<and> c \<le> 0x46 then Some (c - 0x37)
      else if 0x61 \<le> c \<and> c \<le> 0x66 then Some (c - 0x57)
      else None)"

fun hex4 :: "jsstring \<Rightarrow> jschar option" where
  "hex4 (a # b # c # d # _) =
     (case (hex_value a, hex_value b, hex_value c, hex_value d) of
        (Some w, Some x, Some y, Some z) \<Rightarrow> Some (((w * 16 + x) * 16 + y) * 16 + z)
      | _ \<Rightarrow> None)"
| "hex4 _ = None"

text \<open>The code unit of a one-letter escape: quote, backslash, slash, b, f, n, r, t.\<close>

definition escape :: "jschar \<Rightarrow> jschar option" where
  "escape e =
     (if e = 0x22 then Some 0x22
      else if e = 0x5C then Some 0x5C
      else if e = 0x2F then Some 0x2F
      else if e = 0x62 then Some 0x08
      else if e = 0x66 then Some 0x0C
      else if e = 0x6E then Some 0x0A
      else if e = 0x72 then Some 0x0D
      else if e = 0x74 then Some 0x09
      else None)"

text \<open>
  A string token, read from just after its opening quote up to the closing quote:
  the string and the text that follows it. Control characters below U+0020 are
  rejected.
\<close>

fun lex_string :: "jsstring \<Rightarrow> jsstring \<Rightarrow> (jsstring \<times> jsstring) option" where
  "lex_string acc [] = None"
| "lex_string acc (c # cs) =
     (if c = 0x22 then Some (rev acc, cs)
      else if c = 0x5C then
        (case cs of
           [] \<Rightarrow> None
         | e # es \<Rightarrow>
             (if e = 0x75 then
                (case hex4 es of
                   None \<Rightarrow> None
                 | Some u \<Rightarrow> lex_string (u # acc) (drop 4 es))
              else
                (case escape e of
                   None \<Rightarrow> None
                 | Some x \<Rightarrow> lex_string (x # acc) es)))
      else if c < 0x20 then None
      else lex_string (c # acc) cs)"

definition digits_value :: "jsstring \<Rightarrow> nat" where
  "digits_value ds = foldl (\<lambda>n c. 10 * n + unat (c - 0x30)) 0 ds"

text \<open>
  A number token: an optional minus, an integer part that is \<open>0\<close> or starts with a
  non-zero digit, an optional fraction with at least one digit, an optional exponent
  with at least one digit. Each part gives what it read and the text after it.
\<close>

definition lex_int :: "jsstring \<Rightarrow> (jsstring \<times> jsstring) option" where
  "lex_int s =
     (if startsWith s [0x30] then Some ([0x30], drop 1 s)
      else if takeWhile isDigit s = [] then None
      else Some (takeWhile isDigit s, dropWhile isDigit s))"

definition lex_frac :: "jsstring \<Rightarrow> (jsstring \<times> jsstring) option" where
  "lex_frac s =
     (if startsWith s [0x2E] then
        (if takeWhile isDigit (drop 1 s) = [] then None
         else Some (takeWhile isDigit (drop 1 s), dropWhile isDigit (drop 1 s)))
      else Some ([], s))"

definition lex_exp :: "jsstring \<Rightarrow> (int \<times> jsstring) option" where
  "lex_exp s =
     (if startsWith s [0x65] \<or> startsWith s [0x45] then
        (let signed = (startsWith (drop 1 s) [0x2D] \<or> startsWith (drop 1 s) [0x2B]);
             ds = (if signed then drop 2 s else drop 1 s)
         in if takeWhile isDigit ds = [] then None
            else Some (if startsWith (drop 1 s) [0x2D]
                       then - int (digits_value (takeWhile isDigit ds))
                       else int (digits_value (takeWhile isDigit ds)),
                       dropWhile isDigit ds))
      else Some (0, s))"

definition lex_number :: "jsstring \<Rightarrow> (number \<times> jsstring) option" where
  "lex_number s =
     (let neg = startsWith s [0x2D] in
      case lex_int (if neg then drop 1 s else s) of
        None \<Rightarrow> None
      | Some (ip, s2) \<Rightarrow>
          (case lex_frac s2 of
             None \<Rightarrow> None
           | Some (fp, s3) \<Rightarrow>
               (case lex_exp s3 of
                  None \<Rightarrow> None
                | Some (ex, s4) \<Rightarrow>
                    Some (Decimal neg (digits_value (ip @ fp)) (ex - int (length fp)), s4))))"

definition punctuation :: "jschar \<Rightarrow> token option" where
  "punctuation c =
     (if c = 0x7B then Some LBrace
      else if c = 0x7D then Some RBrace
      else if c = 0x5B then Some LBrack
      else if c = 0x5D then Some RBrack
      else if c = 0x3A then Some Colon
      else if c = 0x2C then Some Comma
      else None)"

lemma lex_string_shorter: "lex_string acc s = Some (x, r) \<Longrightarrow> length r < length s"
proof (induction acc s rule: lex_string.induct)
  case (1 acc)
  then show ?case by simp
next
  case (2 acc c cs)
  show ?case
  proof (cases "c = 0x22")
    case True
    with "2.prems" show ?thesis by simp
  next
    case False
    note nq = this
    show ?thesis
    proof (cases "c = 0x5C")
      case True
      note bs = this
      show ?thesis
      proof (cases cs)
        case Nil
        with "2.prems" nq bs show ?thesis by simp
      next
        case (Cons e es)
        show ?thesis
        proof (cases "e = 0x75")
          case True
          with "2.prems" nq bs Cons obtain u where u: "hex4 es = Some u"
            and r: "lex_string (u # acc) (drop 4 es) = Some (x, r)"
            by (auto split: option.splits)
          from "2.IH"(1) [OF nq bs Cons True u r] have "length r < length (drop 4 es)" .
          with Cons show ?thesis by simp
        next
          case False
          with "2.prems" nq bs Cons obtain y where y: "escape e = Some y"
            and r: "lex_string (y # acc) es = Some (x, r)"
            by (auto split: option.splits)
          from "2.IH"(2) [OF nq bs Cons False y r] have "length r < length es" .
          with Cons show ?thesis by simp
        qed
      qed
    next
      case False
      with "2.prems" nq have c: "\<not> c < 0x20" and r: "lex_string (c # acc) cs = Some (x, r)"
        by (auto split: if_splits)
      from "2.IH"(3) [OF nq False c r] show ?thesis by simp
    qed
  qed
qed

lemma length_dropWhile_less: "takeWhile P s \<noteq> [] \<Longrightarrow> length (dropWhile P s) < length s"
  by (cases s) (auto simp: less_Suc_eq_le length_dropWhile_le split: if_splits)

lemma lex_int_shorter: "lex_int s = Some (ip, r) \<Longrightarrow> length r < length s"
proof (cases "startsWith s [0x30]")
  case True
  moreover assume "lex_int s = Some (ip, r)"
  ultimately show ?thesis
    by (cases s) (auto simp: lex_int_def startsWith_def)
next
  case False
  moreover assume "lex_int s = Some (ip, r)"
  ultimately have "takeWhile isDigit s \<noteq> []" and "r = dropWhile isDigit s"
    by (auto simp: lex_int_def split: if_splits)
  then show ?thesis
    using length_dropWhile_less [of isDigit s] by simp
qed

lemma lex_frac_shorter: "lex_frac s = Some (fp, r) \<Longrightarrow> length r \<le> length s"
proof -
  have "length (dropWhile isDigit (drop 1 s)) \<le> length s"
    using length_dropWhile_le [of isDigit "drop 1 s"] by simp
  moreover assume "lex_frac s = Some (fp, r)"
  ultimately show ?thesis
    by (auto simp: lex_frac_def split: if_splits)
qed

lemma lex_exp_shorter: "lex_exp s = Some (ex, r) \<Longrightarrow> length r \<le> length s"
proof -
  have "length (dropWhile isDigit (drop 1 s)) \<le> length s"
    using length_dropWhile_le [of isDigit "drop 1 s"] by simp
  moreover have "length (dropWhile isDigit (drop 2 s)) \<le> length s"
    using length_dropWhile_le [of isDigit "drop 2 s"] by simp
  moreover assume "lex_exp s = Some (ex, r)"
  ultimately show ?thesis
    unfolding lex_exp_def Let_def by (auto split: if_splits)
qed

lemma lex_number_shorter: "lex_number s = Some (n, r) \<Longrightarrow> length r < length s"
proof -
  assume a: "lex_number s = Some (n, r)"
  define s1 where "s1 = (if startsWith s [0x2D] then drop 1 s else s)"
  from a obtain ip s2 fp s3 ex where i: "lex_int s1 = Some (ip, s2)"
    and f: "lex_frac s2 = Some (fp, s3)" and e: "lex_exp s3 = Some (ex, r)"
    unfolding lex_number_def Let_def s1_def by (auto split: option.splits)
  have "length s1 \<le> length s"
    unfolding s1_def by simp
  with lex_int_shorter [OF i] lex_frac_shorter [OF f] lex_exp_shorter [OF e]
  show ?thesis by linarith
qed

function lex :: "jsstring \<Rightarrow> token list option" where
  "lex [] = Some []"
| "lex (c # cs) =
     (if isJsonWhiteSpace c then lex cs
      else if punctuation c \<noteq> None then map_option ((#) (the (punctuation c))) (lex cs)
      else if c = 0x22 then
        (case lex_string [] cs of
           None \<Rightarrow> None
         | Some (s, rest) \<Rightarrow> map_option ((#) (TStr s)) (lex rest))
      else if c = 0x2D \<or> isDigit c then
        (case lex_number (c # cs) of
           None \<Rightarrow> None
         | Some (n, rest) \<Rightarrow> map_option ((#) (TNum n)) (lex rest))
      else if startsWith (c # cs) (js ''true'') then map_option ((#) TTrue) (lex (drop 4 (c # cs)))
      else if startsWith (c # cs) (js ''false'') then map_option ((#) TFalse) (lex (drop 5 (c # cs)))
      else if startsWith (c # cs) (js ''null'') then map_option ((#) TNull) (lex (drop 4 (c # cs)))
      else None)"
  by pat_completeness auto
termination
proof (relation "measure length")
  fix c cs x s rest
  assume "lex_string [] cs = Some x" "(s, rest) = x"
  then show "(rest, c # cs) \<in> measure length"
    using lex_string_shorter [of "[]" cs s rest] by simp
next
  fix c cs x n rest
  assume "lex_number (c # cs) = Some x" "(n, rest) = x"
  then show "(rest, c # cs) \<in> measure length"
    using lex_number_shorter [of "c # cs" n rest] by simp
qed auto

text \<open>
  The parser reads the tokens one at a time. Its stack holds the containers that are
  still open, innermost first: an array with the elements read so far, an object with
  the properties read so far, and above an object the key whose value is being read.
  A key that occurs twice keeps the later value.
\<close>

datatype frame =
    ArrF "jsval list"
  | ObjF "(jsstring \<times> jsval) list"
  | KeyF jsstring

datatype expect = Value | ValueOrClose | KeyOrClose | Key | ColonAfterKey | CommaOrClose

datatype pstate = Parsing "frame list" expect | Finished jsval | Failed

fun push_value :: "jsval \<Rightarrow> frame list \<Rightarrow> pstate" where
  "push_value v [] = Finished v"
| "push_value v (ArrF es # st) = Parsing (ArrF (es @ [v]) # st) CommaOrClose"
| "push_value v (KeyF k # ObjF ps # st) = Parsing (ObjF (set_prop ps k v) # st) CommaOrClose"
| "push_value v _ = Failed"

fun close_array :: "frame list \<Rightarrow> pstate" where
  "close_array (ArrF es # st) = push_value (Arr es) st"
| "close_array _ = Failed"

fun close_object :: "frame list \<Rightarrow> pstate" where
  "close_object (ObjF ps # st) = push_value (Obj ps) st"
| "close_object _ = Failed"

fun start_value :: "frame list \<Rightarrow> token \<Rightarrow> pstate" where
  "start_value st (TStr s) = push_value (Str s) st"
| "start_value st (TNum n) = push_value (Num n) st"
| "start_value st TTrue = push_value (Bool True) st"
| "start_value st TFalse = push_value (Bool False) st"
| "start_value st TNull = push_value Null st"
| "start_value st LBrack = Parsing (ArrF [] # st) ValueOrClose"
| "start_value st LBrace = Parsing (ObjF [] # st) KeyOrClose"
| "start_value st _ = Failed"

fun after_comma :: "frame list \<Rightarrow> pstate" where
  "after_comma (ArrF es # st) = Parsing (ArrF es # st) Value"
| "after_comma (ObjF ps # st) = Parsing (ObjF ps # st) Key"
| "after_comma _ = Failed"

fun parse_step :: "pstate \<Rightarrow> token \<Rightarrow> pstate" where
  "parse_step (Parsing st Value) t = start_value st t"
| "parse_step (Parsing st ValueOrClose) t =
     (if t = RBrack then close_array st else start_value st t)"
| "parse_step (Parsing st KeyOrClose) t =
     (case t of
        TStr k \<Rightarrow> Parsing (KeyF k # st) ColonAfterKey
      | RBrace \<Rightarrow> close_object st
      | _ \<Rightarrow> Failed)"
| "parse_step (Parsing st Key) t =
     (case t of TStr k \<Rightarrow> Parsing (KeyF k # st) ColonAfterKey | _ \<Rightarrow> Failed)"
| "parse_step (Parsing st ColonAfterKey) t =
     (if t = Colon then Parsing st Value else Failed)"
| "parse_step (Parsing st CommaOrClose) t =
     (case t of
        Comma \<Rightarrow> after_comma st
      | RBrack \<Rightarrow> close_array st
      | RBrace \<Rightarrow> close_object st
      | _ \<Rightarrow> Failed)"
| "parse_step (Finished v) t = Failed"
| "parse_step Failed t = Failed"

definition JSON_parse :: "jsstring \<Rightarrow> js_error + jsval" where
  "JSON_parse s =
     (case lex s of
        None \<Rightarrow> Inl SyntaxError
      | Some ts \<Rightarrow>
          (case foldl parse_step (Parsing [] Value) ts of
             Finished v \<Rightarrow> Inr v
           | _ \<Rightarrow> Inl SyntaxError))"

section \<open>Contents, chat messages and responses\<close>

text \<open>
  Modelled from the spec: the types \<open>Content\<close> and \<open>Part\<close> and the request parameter
  types come from the package \<open>@google/genai\<close>, which is not part of the repository.
  Following the spec's UnifiedContent, a content entry has a role and an ordered
  sequence of parts, a part has a text, and the caller passes either a list of entries
  or a bare string. The code reads \<open>parts\<close> with a default and compares \<open>role\<close> with
  a literal, so both may be absent, and so may the text of a part. The candidates of a
  response reuse the two types with a text of any value.
\<close>

record 'a Part =
  "text" :: 'a

record 'a Content =
  role :: "jsstring option"
  parts :: "'a Part list option"

datatype ContentListUnion =
    Text jsstring
  | Contents "jsstring option Content list"

record ContentsParameters =
  contents :: ContentListUnion

record GenerateContentParameters = ContentsParameters +
  generationConfig :: jsval

text \<open>The chat message \<open>{ role, content }\<close> of the target protocol.\<close>

record ChatMessage =
  message_role :: jsstring
  message_content :: jsstring

record CitationMetadata =
  citationSources :: "jsval list"

record Candidate =
  index :: jsval
  content :: "jsval Content"
  finishReason :: jsval
  citationMetadata :: CitationMetadata

record PromptFeedback =
  blockReason :: jsval
  safetyRatings :: "jsval list"

subsection \<open>The class OpenAIGenerateContentResponse\<close>

record OpenAIGenerateContentResponse =
  data :: jsval

definition candidate_of :: "jsval \<Rightarrow> js_error + Candidate" where
  "candidate_of choice =
     and_then (get_prop choice (js ''index'')) (\<lambda>i.
     and_then (get_prop choice (js ''message'')) (\<lambda>m.
     and_then (get_prop m (js ''content'')) (\<lambda>c.
     and_then (get_prop choice (js ''finish_reason'')) (\<lambda>f.
       Inr \<lparr>index = i,
            content = \<lparr>role = Some (js ''model''), parts = Some [\<lparr>text = c\<rparr>]\<rparr>,
            finishReason = f,
            citationMetadata = \<lparr>citationSources = []\<rparr>\<rparr>))))"

definition candidates :: "OpenAIGenerateContentResponse \<Rightarrow> js_error + Candidate list" where
  "candidates this =
     and_then (get_prop (data this) (js ''choices'')) (\<lambda>choices.
       array_map choices candidate_of)"

definition promptFeedback :: "OpenAIGenerateContentResponse \<Rightarrow> PromptFeedback" where
  "promptFeedback this = \<lparr>blockReason = Undefined, safetyRatings = []\<rparr>"

text \<open>The getter \<open>text\<close> of the response.\<close>

definition get_text :: "OpenAIGenerateContentResponse \<Rightarrow> js_error + jsval" where
  "get_text this =
     and_then (get_prop (data this) (js ''choices'')) (\<lambda>choices.
     and_then (get_prop choices (js ''0'')) (\<lambda>choice.
     and_then (get_prop choice (js ''message'')) (\<lambda>m.
       get_prop m (js ''content''))))"

definition functionCalls :: "OpenAIGenerateContentResponse \<Rightarrow> jsval list" where
  "functionCalls this = []"

definition executableCode :: "OpenAIGenerateContentResponse \<Rightarrow> jsstring" where
  "executableCode this = []"

definition codeExecutionResult :: "OpenAIGenerateContentResponse \<Rightarrow> jsstring" where
  "codeExecutionResult this = []"

text \<open>
  The iterator that \<open>[Symbol.iterator]()\<close> returns closes over the response and a
  counter \<open>i\<close> that starts at 0; \<open>next()\<close> compares the counter with 0 and then
  increments it. The counter is a double in the source and never comes back to 0.
\<close>

record ResponseIterator =
  self :: OpenAIGenerateContentResponse
  i :: nat

record IteratorResult =
  iter_value :: OpenAIGenerateContentResponse
  iter_done :: bool

definition iterator :: "OpenAIGenerateContentResponse \<Rightarrow> ResponseIterator" where
  "iterator this = \<lparr>self = this, i = 0\<rparr>"

definition "next" :: "ResponseIterator \<Rightarrow> IteratorResult \<times> ResponseIterator" where
  "next it =
     (if i it = 0 then (\<lparr>iter_value = self it, iter_done = False\<rparr>, it\<lparr>i := i it + 1\<rparr>)
      else (\<lparr>iter_value = self it, iter_done = True\<rparr>, it\<lparr>i := i it + 1\<rparr>))"

text \<open>
  Iteration as \<open>for ... of\<close> does it: call \<open>next()\<close> until a result is done, and
  collect the values of the results before it. An iterator that is never done gives no
  list.
\<close>

partial_function (option) iterate :: "ResponseIterator \<Rightarrow> OpenAIGenerateContentResponse list option" where
  "iterate it =
     (case next it of (r, it') \<Rightarrow>
        if iter_done r then Some []
        else Option.bind (iterate it') (\<lambda>vs. Some (iter_value r # vs)))"

declare iterate.simps [code]

text \<open>The results of the first \<open>n\<close> calls of \<open>next()\<close>.\<close>

fun nexts :: "nat \<Rightarrow> ResponseIterator \<Rightarrow> IteratorResult list" where
  "nexts 0 it = []"
| "nexts (Suc n) it = (case next it of (r, it') \<Rightarrow> r # nexts n it')"

section \<open>The class OpenAICompatibleContentGenerator\<close>

record OpenAICompatibleContentGenerator =
  endpoint :: jsstring
  model :: jsstring
  apiKey :: jsstring

fun contentsToParts :: "ContentListUnion \<Rightarrow> jsstring option Content list" where
  "contentsToParts (Text s) = [\<lparr>role = Some (js ''user''), parts = Some [\<lparr>text = Some s\<rparr>]\<rparr>]"
| "contentsToParts (Contents cs) = cs"

text \<open>\<open>(content.parts ?? []).map((part) => part.text).join('')\<close>\<close>

definition parts_text :: "jsstring option Content \<Rightarrow> jsstring" where
  "parts_text c = join (map text (case parts c of None \<Rightarrow> [] | Some ps \<Rightarrow> ps)) []"

text \<open>The loop of \<open>convertToOpenAIMessages\<close>, which pushes one message per entry.\<close>

fun convert_loop :: "ChatMessage list \<Rightarrow> jsstring option Content list \<Rightarrow> ChatMessage list" where
  "convert_loop messages [] = messages"
| "convert_loop messages (c # cs) =
     convert_loop
       (messages @
        [\<lparr>message_role = (if role c = Some (js ''model'') then js ''assistant'' else js ''user''),
          message_content = parts_text c\<rparr>])
       cs"

definition convertToOpenAIMessages :: "jsstring option Content list \<Rightarrow> ChatMessage list" where
  "convertToOpenAIMessages cs = convert_loop [] cs"

subsection \<open>countTokens and embedContent\<close>

record CountTokensResponse =
  totalTokens :: int

text \<open>
  \<open>Math.ceil\<close> of a quotient. A length is far below \<open>2^53\<close> and the divisor is 4,
  so the division of doubles is exact and the real quotient is what the source rounds up.
\<close>

definition Math_ceil :: "real \<Rightarrow> int" where
  "Math_ceil x = \<lceil>x\<rceil>"

text \<open>The result of an async method is a promise, rejected where the body throws.\<close>

datatype 'a promise = Rejected js_error | Fulfilled 'a

definition countTokens :: "'a ContentsParameters_scheme \<Rightarrow> CountTokensResponse promise" where
  "countTokens request =
     (let cs = contentsToParts (contents request);
          t = join (map (\<lambda>c. Some (parts_text c)) cs) []
      in Fulfilled \<lparr>totalTokens = Math_ceil (real (length t) / 4)\<rparr>)"

section \<open>The transport\<close>

text \<open>
  \<open>fetch\<close> is the platform's. The world holds the replies that the network will give,
  by the number of requests sent before, and the log of the requests sent; a reply is a
  response or the error that \<open>fetch\<close> rejects with. The body of a response is the
  sequence of the texts that the reads of its stream decode to, or absent.
\<close>

record RequestBody =
  body_model :: jsstring
  body_messages :: "ChatMessage list"
  body_temperature :: jsval
  body_max_tokens :: jsval
  body_stream :: bool

record Request =
  url :: jsstring
  http_method :: jsstring
  headers :: "(jsstring \<times> jsstring) list"
  request_body :: RequestBody

record Response =
  status :: nat
  statusText :: jsstring
  body :: "jsstring list option"

record World =
  replies :: "nat \<Rightarrow> js_error + Response"
  sent :: "Request list"

definition fetch :: "Request \<Rightarrow> World \<Rightarrow> (js_error + Response) \<times> World" where
  "fetch req w = (replies w (length (sent w)), w\<lparr>sent := sent w @ [req]\<rparr>)"

text \<open>\<open>response.ok\<close>: the status is in the range 200 to 299.\<close>

definition ok :: "Response \<Rightarrow> bool" where
  "ok r = (200 \<le> status r \<and> status r \<le> 299)"

text \<open>\<open>response.text()\<close> reads the whole body; \<open>response.json()\<close> parses that text.\<close>

definition body_text :: "Response \<Rightarrow> jsstring" where
  "body_text r = (case body r of None \<Rightarrow> [] | Some chunks \<Rightarrow> concat chunks)"

definition body_json :: "Response \<Rightarrow> js_error + jsval" where
  "body_json r = JSON_parse (body_text r)"

text \<open>
  A call of a method that is not async returns, or throws before it returns anything.
\<close>

datatype 'a call = Throws js_error | Returns 'a

record EmbedContentResponse =
  embeddings :: "jsval list"

definition embedContent :: "'p \<Rightarrow> World \<Rightarrow> EmbedContentResponse promise call \<times> World" where
  "embedContent request w = (Throws (Error (js ''embedContent not supported'')), w)"

subsection \<open>generateContent\<close>

definition chat_request ::
  "OpenAICompatibleContentGenerator \<Rightarrow> 'a GenerateContentParameters_scheme \<Rightarrow> bool \<Rightarrow> Request" where
  "chat_request this request streaming =
     \<lparr>url = endpoint this @ js ''/chat/completions'',
      http_method = js ''POST'',
      headers = [(js ''Content-Type'', js ''application/json''),
                 (js ''Authorization'', js ''Bearer '' @ apiKey this)],
      request_body =
        \<lparr>body_model = model this,
         body_messages = convertToOpenAIMessages (contentsToParts (contents request)),
         body_temperature = get_optional (generationConfig request) (js ''temperature''),
         body_max_tokens = get_optional (generationConfig request) (js ''maxOutputTokens''),
         body_stream = streaming\<rparr>\<rparr>"

definition fetch_failure :: "Response \<Rightarrow> js_error" where
  "fetch_failure response =
     Error (js ''Failed to fetch from local LLM: '' @ decimal (status response) @ js '' ''
            @ statusText response @ js '' '' @ body_text response)"

definition generateContent ::
  "OpenAICompatibleContentGenerator \<Rightarrow> 'a GenerateContentParameters_scheme \<Rightarrow> World
     \<Rightarrow> OpenAIGenerateContentResponse promise \<times> World" where
  "generateContent this request w =
     (case fetch (chat_request this request False) w of
        (Inl e, w') \<Rightarrow> (Rejected e, w')
      | (Inr response, w') \<Rightarrow>
          (if \<not> ok response then (Rejected (fetch_failure response), w')
           else
             (case body_json response of
                Inl e \<Rightarrow> (Rejected e, w')
              | Inr d \<Rightarrow> (Fulfilled \<lparr>data = d\<rparr>, w'))))"

subsection \<open>generateContentStream\<close>

text \<open>
  The object literal that an event's payload is wrapped in: the payload's own
  properties, with \<open>choices\<close> replaced by the choices mapped to themselves with
  \<open>message\<close> set to their \<open>delta\<close>.
\<close>

definition remap_choice :: "jsval \<Rightarrow> js_error + jsval" where
  "remap_choice choice =
     and_then (get_prop choice (js ''delta'')) (\<lambda>d.
       Inr (Obj (set_prop (own_props choice) (js ''message'') d)))"

definition remap :: "jsval \<Rightarrow> js_error + OpenAIGenerateContentResponse" where
  "remap d =
     and_then (get_prop d (js ''choices'')) (\<lambda>choices.
     and_then (array_map choices remap_choice) (\<lambda>cs.
       Inr \<lparr>data = Obj (set_prop (own_props d) (js ''choices'') (Arr cs))\<rparr>))"

text \<open>
  A run of the async generator, drained by its consumer: the responses it yields, in
  order, and how it ends, by returning or by throwing.
\<close>

datatype completion = Return | Throw js_error

text \<open>
  The loop over the segments of one chunk. It gives the responses yielded and, where
  the generator ends inside the loop, how; \<open>None\<close> says that the loop ran to its end
  and the generator goes on to the next read.
\<close>

fun for_lines :: "jsstring list \<Rightarrow> OpenAIGenerateContentResponse list \<times> completion option" where
  "for_lines [] = ([], None)"
| "for_lines (line # lines) =
     (if startsWith line (js ''data: '') then
        (let json = substring line (length (js ''data: '')) in
         if trim json = js ''[DONE]'' then ([], Some Return)
         else
           (case JSON_parse json of
              Inl e \<Rightarrow> ([], Some (Throw e))
            | Inr d \<Rightarrow>
                (case remap d of
                   Inl e \<Rightarrow> ([], Some (Throw e))
                 | Inr r \<Rightarrow> (case for_lines lines of (rs, c) \<Rightarrow> (r # rs, c)))))
      else for_lines lines)"

text \<open>
  The loop over the reads: the list holds the decoded text of each read before the
  reader reports \<open>done\<close>. The bytes of a read are decoded by the platform's
  \<open>TextDecoder\<close>, which is outside the model.
\<close>

fun generator :: "jsstring list \<Rightarrow> OpenAIGenerateContentResponse list \<times> completion" where
  "generator [] = ([], Return)"
| "generator (chunk # chunks) =
     (case for_lines (split chunk (js ''\<newline>\<newline>'')) of
        (rs, Some c) \<Rightarrow> (rs, c)
      | (rs, None) \<Rightarrow> (case generator chunks of (rs', c) \<Rightarrow> (rs @ rs', c)))"

definition generateContentStream ::
  "OpenAICompatibleContentGenerator \<Rightarrow> 'a GenerateContentParameters_scheme \<Rightarrow> World
     \<Rightarrow> (OpenAIGenerateContentResponse list \<times> completion) promise \<times> World" where
  "generateContentStream this request w =
     (case fetch (chat_request this request True) w of
        (Inl e, w') \<Rightarrow> (Rejected e, w')
      | (Inr response, w') \<Rightarrow>
          (if \<not> ok response then (Rejected (fetch_failure response), w')
           else
             (case body response of
                None \<Rightarrow> (Rejected (Error (js ''No response body'')), w')
              | Some stream \<Rightarrow> (Fulfilled (generator stream), w'))))"

section \<open>The terms of the specification\<close>

text \<open>
  The text that a part contributes, the parts of an entry, and the concatenation of all
  part texts across all entries with no separators, as the specification words them.
\<close>

definition part_text :: "jsstring option Part \<Rightarrow> jsstring" where
  "part_text p = (case text p of None \<Rightarrow> [] | Some t \<Rightarrow> t)"

definition entry_parts :: "jsstring option Content \<Rightarrow> jsstring option Part list" where
  "entry_parts c = (case parts c of None \<Rightarrow> [] | Some ps \<Rightarrow> ps)"

definition spec_total_text :: "ContentListUnion \<Rightarrow> jsstring" where
  "spec_total_text u =
     (case u of
        Text s \<Rightarrow> s
      | Contents cs \<Rightarrow> concat (map (\<lambda>c. concat (map part_text (entry_parts c))) cs))"

text \<open>A choice that carries a message: reading \<open>message\<close> gives neither \<open>undefined\<close> nor \<open>null\<close>.\<close>

definition has_message :: "jsval \<Rightarrow> bool" where
  "has_message choice =
     (case get_prop choice (js ''message'') of
        Inl e \<Rightarrow> False
      | Inr m \<Rightarrow> m \<noteq> Undefined \<and> m \<noteq> Null)"

text \<open>A segment whose payload, after the prefix is stripped, trims to the sentinel.\<close>

definition is_done :: "jsstring \<Rightarrow> bool" where
  "is_done line =
     (startsWith line (js ''data: '')
      \<and> trim (substring line (length (js ''data: ''))) = js ''[DONE]'')"

text \<open>The three frames of the specification's streaming example.\<close>

abbreviation frame_He :: jsstring where
  "frame_He \<equiv>
     js ''data: {\"choices\":[{\"index\":0,\"delta\":{\"content\":\"He\"},\"finish_reason\":null}]}\<newline>\<newline>''"

abbreviation frame_llo :: jsstring where
  "frame_llo \<equiv>
     js ''data: {\"choices\":[{\"index\":0,\"delta\":{\"content\":\"llo\"},\"finish_reason\":\"stop\"}]}\<newline>\<newline>''"

abbreviation frame_DONE :: jsstring where
  "frame_DONE \<equiv> js ''data: [DONE]\<newline>\<newline>''"

text \<open>The responses that wrap the payloads of the first two frames.\<close>

abbreviation response_He :: OpenAIGenerateContentResponse where
  "response_He \<equiv>
     \<lparr>data = Obj [(js ''choices'',
        Arr [Obj [(js ''index'', Num (Decimal False 0 0)),
                  (js ''delta'', Obj [(js ''content'', Str (js ''He''))]),
                  (js ''finish_reason'', Null),
                  (js ''message'', Obj [(js ''content'', Str (js ''He''))])]])]\<rparr>"

abbreviation response_llo :: OpenAIGenerateContentResponse where
  "response_llo \<equiv>
     \<lparr>data = Obj [(js ''choices'',
        Arr [Obj [(js ''index'', Num (Decimal False 0 0)),
                  (js ''delta'', Obj [(js ''content'', Str (js ''llo''))]),
                  (js ''finish_reason'', Str (js ''stop'')),
                  (js ''message'', Obj [(js ''content'', Str (js ''llo''))])]])]\<rparr>"

section \<open>Properties\<close>

subsection \<open>The message converter and the token estimator\<close>

lemma join_no_separator:
  "join xs [] = concat (map (\<lambda>x. case x of None \<Rightarrow> [] | Some s \<Rightarrow> s) xs)"
proof (induction xs)
  case Nil
  show ?case by simp
next
  case (Cons x xs)
  then show ?case by (cases xs) simp_all
qed

lemma parts_text_concat: "parts_text c = concat (map part_text (entry_parts c))"
proof -
  have "part_text = (\<lambda>p. case text p of None \<Rightarrow> [] | Some t \<Rightarrow> t)"
    by (simp add: fun_eq_iff part_text_def)
  then show ?thesis
    by (simp add: parts_text_def join_no_separator entry_parts_def comp_def)
qed

lemma convert_loop_append:
  "convert_loop acc cs =
     acc @ map (\<lambda>c. \<lparr>message_role = (if role c = Some (js ''model'') then js ''assistant'' else js ''user''),
                      message_content = parts_text c\<rparr>) cs"
  by (induction cs arbitrary: acc) simp_all

lemma length_js: "length (js s) = length s"
  by (simp add: js_def)

text \<open>
  C3. For every list of content entries, \<open>convertToOpenAIMessages\<close> gives exactly one
  chat message per entry, in the same order and without merging: the role \<open>model\<close>
  becomes \<open>assistant\<close> and every other role, an absent one too, becomes \<open>user\<close>; the
  content is the concatenation, in order, of the texts of the entry's parts, where a
  part without text contributes the empty string and nothing is thrown.
\<close>

theorem convertToOpenAIMessages_entrywise:
  "convertToOpenAIMessages cs =
     map (\<lambda>c. \<lparr>message_role = (if role c = Some (js ''model'') then js ''assistant'' else js ''user''),
               message_content = concat (map part_text (entry_parts c))\<rparr>) cs
   \<and> length (convertToOpenAIMessages cs) = length cs"
  by (simp add: convertToOpenAIMessages_def convert_loop_append parts_text_concat)

theorem convertToOpenAIMessages_entrywise_witness:
  "convertToOpenAIMessages
     [\<lparr>role = Some (js ''model''),
       parts = Some [\<lparr>text = Some (js ''a'')\<rparr>, \<lparr>text = None\<rparr>, \<lparr>text = Some (js ''b'')\<rparr>]\<rparr>,
      \<lparr>role = Some (js ''system''), parts = None\<rparr>,
      \<lparr>role = None, parts = Some [\<lparr>text = Some (js ''c'')\<rparr>]\<rparr>]
   = [\<lparr>message_role = js ''assistant'', message_content = js ''ab''\<rparr>,
      \<lparr>message_role = js ''user'', message_content = js ''''\<rparr>,
      \<lparr>message_role = js ''user'', message_content = js ''c''\<rparr>]"
proof -
  have "js ''system'' \<noteq> js ''model''" by code_simp
  moreover have "js ''a'' @ js ''b'' = js ''ab''" "js '''' = []" by (simp_all add: js_def)
  ultimately show ?thesis
    using convertToOpenAIMessages_entrywise
      [of "[\<lparr>role = Some (js ''model''),
       parts = Some [\<lparr>text = Some (js ''a'')\<rparr>, \<lparr>text = None\<rparr>, \<lparr>text = Some (js ''b'')\<rparr>]\<rparr>,
      \<lparr>role = Some (js ''system''), parts = None\<rparr>,
      \<lparr>role = None, parts = Some [\<lparr>text = Some (js ''c'')\<rparr>]\<rparr>]"]
    by (simp add: part_text_def entry_parts_def)
qed

lemma total_text_join:
  "join (map (\<lambda>c. Some (parts_text c)) (contentsToParts u)) [] = spec_total_text u"
  by (cases u)
     (simp_all add: join_no_separator spec_total_text_def parts_text_concat comp_def
        part_text_def entry_parts_def)

lemma countTokens_formula:
  "countTokens request =
     Fulfilled \<lparr>totalTokens = \<lceil>real (length (spec_total_text (contents request))) / 4\<rceil>\<rparr>"
  by (simp add: countTokens_def Let_def total_text_join Math_ceil_def)

text \<open>
  C6. For every input, \<open>countTokens\<close> concatenates all part texts across all entries
  with no separators and returns the ceiling of a quarter of the length of that text.
  It is a function of its argument alone and touches no state; its result is monotonic
  non-decreasing in the total length of the text; the empty string gives 0, a string of
  4 characters gives 1 and a string of 5 characters gives 2.
\<close>

theorem countTokens_ceiling:
  "countTokens request =
     Fulfilled \<lparr>totalTokens = \<lceil>real (length (spec_total_text (contents request))) / 4\<rceil>\<rparr>
   \<and> (\<forall>n n'. countTokens request = Fulfilled \<lparr>totalTokens = n\<rparr>
          \<longrightarrow> countTokens request' = Fulfilled \<lparr>totalTokens = n'\<rparr>
          \<longrightarrow> length (spec_total_text (contents request))
                \<le> length (spec_total_text (contents request'))
          \<longrightarrow> n \<le> n')
   \<and> countTokens \<lparr>contents = Text (js '''')\<rparr> = Fulfilled \<lparr>totalTokens = 0\<rparr>
   \<and> countTokens \<lparr>contents = Text (js ''abcd'')\<rparr> = Fulfilled \<lparr>totalTokens = 1\<rparr>
   \<and> countTokens \<lparr>contents = Text (js ''abcde'')\<rparr> = Fulfilled \<lparr>totalTokens = 2\<rparr>"
proof -
  have mono: "\<lceil>real a / 4\<rceil> \<le> \<lceil>real b / 4\<rceil>" if "a \<le> b" for a b :: nat
    using that by (intro ceiling_mono divide_right_mono) simp_all
  have "countTokens \<lparr>contents = Text (js '''')\<rparr> = Fulfilled \<lparr>totalTokens = 0\<rparr>"
    by (simp add: countTokens_formula spec_total_text_def length_js)
  moreover have "countTokens \<lparr>contents = Text (js ''abcd'')\<rparr> = Fulfilled \<lparr>totalTokens = 1\<rparr>"
    by (simp add: countTokens_formula spec_total_text_def length_js)
  moreover have "countTokens \<lparr>contents = Text (js ''abcde'')\<rparr> = Fulfilled \<lparr>totalTokens = 2\<rparr>"
    by (simp add: countTokens_formula spec_total_text_def length_js)
  ultimately show ?thesis
    using mono by (simp add: countTokens_formula)
qed

theorem countTokens_ceiling_witness:
  "countTokens \<lparr>contents = Text (js ''abcd'')\<rparr> = Fulfilled \<lparr>totalTokens = 1\<rparr>
   \<and> countTokens \<lparr>contents = Text (js ''abcde'')\<rparr> = Fulfilled \<lparr>totalTokens = 2\<rparr>
   \<and> length (spec_total_text (Text (js ''abcd''))) \<le> length (spec_total_text (Text (js ''abcde'')))
   \<and> (1::int) \<le> 2"
  using countTokens_ceiling [of "\<lparr>contents = Text (js ''abcd'')\<rparr>" "\<lparr>contents = Text (js ''abcde'')\<rparr>"]
  by (simp add: spec_total_text_def length_js)

subsection \<open>The response view\<close>

lemma next_started:
  "i it \<noteq> 0 \<Longrightarrow> next it = (\<lparr>iter_value = self it, iter_done = True\<rparr>, it\<lparr>i := i it + 1\<rparr>)"
  by (simp add: next_def)

lemma nexts_started:
  "i it \<noteq> 0 \<Longrightarrow> nexts n it = replicate n \<lparr>iter_value = self it, iter_done = True\<rparr>"
  by (induction n arbitrary: it) (simp_all add: next_started)

text \<open>
  C9. Every response is iterable: its iteration yields exactly one element, the
  response itself, and then ends. The first call of \<open>next()\<close> gives the response and
  is not done; every later call is done, so no second element is ever produced.
\<close>

theorem iterator_yields_self_once:
  "iterate (iterator this) = Some [this]
   \<and> nexts (Suc n) (iterator this) =
       \<lparr>iter_value = this, iter_done = False\<rparr> # replicate n \<lparr>iter_value = this, iter_done = True\<rparr>"
proof -
  have second: "iterate \<lparr>self = this, i = Suc 0\<rparr> = Some []"
    by (subst iterate.simps) (simp add: next_def)
  have "iterate \<lparr>self = this, i = 0\<rparr> = Some [this]"
    by (subst iterate.simps) (simp add: next_def second)
  then have "iterate (iterator this) = Some [this]"
    by (simp add: iterator_def)
  moreover have "nexts (Suc n) (iterator this) =
       \<lparr>iter_value = this, iter_done = False\<rparr> # replicate n \<lparr>iter_value = this, iter_done = True\<rparr>"
    by (simp add: iterator_def next_def nexts_started)
  ultimately show ?thesis by simp
qed

lemma get_prop_present:
  "has_message choice \<Longrightarrow> get_prop choice k = Inr (get_own choice k)"
  by (cases choice) (simp_all add: has_message_def)

lemma candidate_of_message:
  assumes "has_message choice"
  shows "candidate_of choice =
     Inr \<lparr>index = get_own choice (js ''index''),
          content = \<lparr>role = Some (js ''model''),
                     parts = Some [\<lparr>text = get_own (get_own choice (js ''message'')) (js ''content'')\<rparr>]\<rparr>,
          finishReason = get_own choice (js ''finish_reason''),
          citationMetadata = \<lparr>citationSources = []\<rparr>\<rparr>"
proof -
  let ?m = "get_own choice (js ''message'')"
  from assms have "?m \<noteq> Undefined" and "?m \<noteq> Null"
    by (simp_all add: has_message_def get_prop_present [OF assms])
  then have "get_prop ?m (js ''content'') = Inr (get_own ?m (js ''content''))"
    by (cases ?m) simp_all
  then show ?thesis
    by (simp add: candidate_of_def and_then_def get_prop_present [OF assms])
qed

lemma map_throwing_candidates:
  "list_all has_message cs \<Longrightarrow>
     map_throwing candidate_of cs =
       Inr (map (\<lambda>choice.
              \<lparr>index = get_own choice (js ''index''),
               content = \<lparr>role = Some (js ''model''),
                          parts = Some [\<lparr>text = get_own (get_own choice (js ''message'')) (js ''content'')\<rparr>]\<rparr>,
               finishReason = get_own choice (js ''finish_reason''),
               citationMetadata = \<lparr>citationSources = []\<rparr>\<rparr>) cs)"
  by (induction cs) (simp_all add: candidate_of_message and_then_def)

text \<open>
  C4, as stated, fails: for a choice whose message has no content, the text of the
  candidate's part is \<open>undefined\<close> and not the empty string.
\<close>

theorem candidates_absent_content_counterexample:
  "candidates \<lparr>data = Obj [(js ''choices'',
       Arr [Obj [(js ''index'', Num (Decimal False 0 0)), (js ''message'', Obj []),
                 (js ''finish_reason'', Str (js ''stop''))]])]\<rparr>
   = Inr [\<lparr>index = Num (Decimal False 0 0),
           content = \<lparr>role = Some (js ''model''), parts = Some [\<lparr>text = Undefined\<rparr>]\<rparr>,
           finishReason = Str (js ''stop''),
           citationMetadata = \<lparr>citationSources = []\<rparr>\<rparr>]
   \<and> candidates \<lparr>data = Obj [(js ''choices'',
       Arr [Obj [(js ''index'', Num (Decimal False 0 0)), (js ''message'', Obj []),
                 (js ''finish_reason'', Str (js ''stop''))]])]\<rparr>
   \<noteq> Inr [\<lparr>index = Num (Decimal False 0 0),
           content = \<lparr>role = Some (js ''model''), parts = Some [\<lparr>text = Str []\<rparr>]\<rparr>,
           finishReason = Str (js ''stop''),
           citationMetadata = \<lparr>citationSources = []\<rparr>\<rparr>]"
  by code_simp

text \<open>
  C4, amended. For every payload whose \<open>choices\<close> is an array of choices that each
  carry a message, \<open>candidates\<close> has one entry per choice, in order; each candidate has
  the role \<open>model\<close>, exactly one text part whose text is \<open>choice.message.content\<close>
  as it is (\<open>undefined\<close> when that content is absent), \<open>finishReason\<close> equal to the
  choice's \<open>finish_reason\<close> as it is, and an empty list of citation sources.
\<close>

theorem candidates_verbatim:
  assumes "get_prop d (js ''choices'') = Inr (Arr cs)" and "list_all has_message cs"
  shows "candidates \<lparr>data = d\<rparr> =
     Inr (map (\<lambda>choice.
            \<lparr>index = get_own choice (js ''index''),
             content = \<lparr>role = Some (js ''model''),
                        parts = Some [\<lparr>text = get_own (get_own choice (js ''message'')) (js ''content'')\<rparr>]\<rparr>,
             finishReason = get_own choice (js ''finish_reason''),
             citationMetadata = \<lparr>citationSources = []\<rparr>\<rparr>) cs)"
  using assms by (simp add: candidates_def and_then_def map_throwing_candidates)

theorem candidates_verbatim_witness:
  "candidates \<lparr>data = Obj [(js ''choices'',
       Arr [Obj [(js ''index'', Num (Decimal False 0 0)),
                 (js ''message'', Obj [(js ''content'', Str (js ''hi''))]),
                 (js ''finish_reason'', Str (js ''stop''))],
            Obj [(js ''index'', Num (Decimal False 1 0)), (js ''message'', Obj []),
                 (js ''finish_reason'', Null)]])]\<rparr>
   = Inr [\<lparr>index = Num (Decimal False 0 0),
           content = \<lparr>role = Some (js ''model''), parts = Some [\<lparr>text = Str (js ''hi'')\<rparr>]\<rparr>,
           finishReason = Str (js ''stop''),
           citationMetadata = \<lparr>citationSources = []\<rparr>\<rparr>,
          \<lparr>index = Num (Decimal False 1 0),
           content = \<lparr>role = Some (js ''model''), parts = Some [\<lparr>text = Undefined\<rparr>]\<rparr>,
           finishReason = Null,
           citationMetadata = \<lparr>citationSources = []\<rparr>\<rparr>]"
proof -
  let ?c0 = "Obj [(js ''index'', Num (Decimal False 0 0)),
                 (js ''message'', Obj [(js ''content'', Str (js ''hi''))]),
                 (js ''finish_reason'', Str (js ''stop''))]"
  let ?c1 = "Obj [(js ''index'', Num (Decimal False 1 0)), (js ''message'', Obj []),
                 (js ''finish_reason'', Null)]"
  let ?d = "Obj [(js ''choices'', Arr [?c0, ?c1])]"
  have h1: "get_prop ?d (js ''choices'') = Inr (Arr [?c0, ?c1])" by code_simp
  have h2: "list_all has_message [?c0, ?c1]" by code_simp
  have e0: "get_own ?c0 (js ''index'') = Num (Decimal False 0 0)
            \<and> get_own (get_own ?c0 (js ''message'')) (js ''content'') = Str (js ''hi'')
            \<and> get_own ?c0 (js ''finish_reason'') = Str (js ''stop'')" by code_simp
  have e1: "get_own ?c1 (js ''index'') = Num (Decimal False 1 0)
            \<and> get_own (get_own ?c1 (js ''message'')) (js ''content'') = Undefined
            \<and> get_own ?c1 (js ''finish_reason'') = Null" by code_simp
  from candidates_verbatim [OF h1 h2] e0 e1 show ?thesis
    by (simp del: get_own.simps)
qed

subsection \<open>Failures of the calls\<close>

text \<open>
  C8. For every input, \<open>embedContent\<close> throws the error \<open>embedContent not supported\<close>
  before it returns anything, on every call; it never returns and it sends no request.
\<close>

theorem embedContent_unsupported:
  "embedContent request w = (Throws (Error (js ''embedContent not supported'')), w)
   \<and> fst (embedContent request w) \<noteq> Returns p
   \<and> sent (snd (embedContent request w)) = sent w"
  by (simp add: embedContent_def)

text \<open>
  C5. For every response with a non-success status, \<open>generateContent\<close> and
  \<open>generateContentStream\<close> fail with one error whose message carries the status code,
  the status text and the whole text of the response body; exactly one request has
  been sent when they fail, so nothing is retried. A status 500 with the body \<open>boom\<close>
  gives an error that contains \<open>500\<close> and \<open>boom\<close>.
\<close>

theorem non_success_status_rejects:
  assumes "replies w (length (sent w)) = Inr response" and "\<not> ok response"
  shows "generateContent this request w =
           (Rejected (Error (js ''Failed to fetch from local LLM: '' @ decimal (status response)
                             @ js '' '' @ statusText response @ js '' '' @ body_text response)),
            w\<lparr>sent := sent w @ [chat_request this request False]\<rparr>)
         \<and> generateContentStream this request w =
           (Rejected (Error (js ''Failed to fetch from local LLM: '' @ decimal (status response)
                             @ js '' '' @ statusText response @ js '' '' @ body_text response)),
            w\<lparr>sent := sent w @ [chat_request this request True]\<rparr>)"
  using assms
  by (simp add: generateContent_def generateContentStream_def fetch_def fetch_failure_def)

lemma decimal_500: "decimal 500 = js ''500''"
  by code_simp

theorem non_success_status_rejects_witness:
  "fst (generateContent
          \<lparr>endpoint = js ''http://localhost:1234/v1'', model = js ''local'', apiKey = js ''key''\<rparr>
          \<lparr>contents = Text (js ''hi''), generationConfig = Undefined\<rparr>
          \<lparr>replies = (\<lambda>n. Inr \<lparr>status = 500, statusText = js ''Internal Server Error'',
                                body = Some [js ''bo'', js ''om'']\<rparr>), sent = []\<rparr>) =
     Rejected (Error (js ''Failed to fetch from local LLM: 500 Internal Server Error boom''))
   \<and> length (sent (snd (generateContent
          \<lparr>endpoint = js ''http://localhost:1234/v1'', model = js ''local'', apiKey = js ''key''\<rparr>
          \<lparr>contents = Text (js ''hi''), generationConfig = Undefined\<rparr>
          \<lparr>replies = (\<lambda>n. Inr \<lparr>status = 500, statusText = js ''Internal Server Error'',
                                body = Some [js ''bo'', js ''om'']\<rparr>), sent = []\<rparr>))) = 1
   \<and> fst (generateContentStream
          \<lparr>endpoint = js ''http://localhost:1234/v1'', model = js ''local'', apiKey = js ''key''\<rparr>
          \<lparr>contents = Text (js ''hi''), generationConfig = Undefined\<rparr>
          \<lparr>replies = (\<lambda>n. Inr \<lparr>status = 500, statusText = js ''Internal Server Error'',
                                body = Some [js ''bo'', js ''om'']\<rparr>), sent = []\<rparr>) =
     Rejected (Error (js ''Failed to fetch from local LLM: 500 Internal Server Error boom''))"
proof -
  let ?r = "\<lparr>status = 500, statusText = js ''Internal Server Error'', body = Some [js ''bo'', js ''om'']\<rparr>"
  let ?w = "\<lparr>replies = (\<lambda>n. Inr ?r), sent = []\<rparr>"
  let ?gen = "\<lparr>endpoint = js ''http://localhost:1234/v1'', model = js ''local'', apiKey = js ''key''\<rparr>"
  let ?req = "\<lparr>contents = Text (js ''hi''), generationConfig = Undefined\<rparr>"
  have h1: "replies ?w (length (sent ?w)) = Inr ?r" by simp
  have h2: "\<not> ok ?r" by (simp add: ok_def)
  have m: "js ''Failed to fetch from local LLM: '' @ decimal (status ?r) @ js '' ''
             @ statusText ?r @ js '' '' @ body_text ?r
           = js ''Failed to fetch from local LLM: 500 Internal Server Error boom''"
    by (simp add: decimal_500 body_text_def js_def)
  from non_success_status_rejects [OF h1 h2, of ?gen ?req] m
  show ?thesis by simp
qed

subsection \<open>The streaming decoder\<close>

lemma for_lines_append:
  "for_lines (xs @ ys) =
     (case for_lines xs of
        (rs, None) \<Rightarrow> (case for_lines ys of (rs', c) \<Rightarrow> (rs @ rs', c))
      | (rs, Some c) \<Rightarrow> (rs, Some c))"
  by (induction xs) (auto simp: Let_def split: prod.splits option.splits sum.splits)

lemma for_lines_done: "is_done d \<Longrightarrow> for_lines (d # post) = ([], Some Return)"
  by (simp add: is_done_def)

lemma for_lines_unprefixed:
  "\<forall>l \<in> set ls. \<not> startsWith l (js ''data: '') \<Longrightarrow> for_lines ls = ([], None)"
  by (induction ls) simp_all

lemma generator_ended:
  "for_lines (split chunk (js ''\<newline>\<newline>'')) = (rs, Some c) \<Longrightarrow>
     generator (before @ chunk # after) = generator (before @ [chunk])"
  by (induction before) (simp_all split: prod.splits option.splits)

text \<open>
  C7. A segment that does not start with the prefix \<open>data: \<close> is ignored: it yields no
  response and throws nothing, and decoding goes on with the segments after it and, at
  the end of the chunk, with the next read. A segment whose payload after the prefix
  trims to \<open>[DONE]\<close> ends the sequence by a return, not by an error.
\<close>

theorem unprefixed_segments_ignored:
  "(\<not> startsWith line (js ''data: '') \<longrightarrow> for_lines (line # lines) = for_lines lines)
   \<and> (is_done line \<longrightarrow> for_lines (line # lines) = ([], Some Return))
   \<and> ((\<forall>l \<in> set pre. \<not> startsWith l (js ''data: '')) \<and> is_done line
        \<and> split chunk (js ''\<newline>\<newline>'') = pre @ line # lines
        \<longrightarrow> generator (chunk # chunks) = ([], Return))
   \<and> ((\<forall>l \<in> set (split chunk (js ''\<newline>\<newline>'')). \<not> startsWith l (js ''data: ''))
        \<longrightarrow> generator (chunk # chunks) = generator chunks)"
proof -
  have skip: "\<not> startsWith line (js ''data: '') \<longrightarrow> for_lines (line # lines) = for_lines lines"
    by simp
  have stop: "is_done line \<longrightarrow> for_lines (line # lines) = ([], Some Return)"
    using for_lines_done [of line lines] by blast
  have first_done: "generator (chunk # chunks) = ([], Return)"
    if "\<forall>l \<in> set pre. \<not> startsWith l (js ''data: '')" and "is_done line"
      and "split chunk (js ''\<newline>\<newline>'') = pre @ line # lines"
  proof -
    have "for_lines (pre @ line # lines) = ([], Some Return)"
      using that(1,2)
      by (simp add: for_lines_append for_lines_done for_lines_unprefixed del: for_lines.simps)
    with that(3) show ?thesis by simp
  qed
  have all_skipped: "generator (chunk # chunks) = generator chunks"
    if "\<forall>l \<in> set (split chunk (js ''\<newline>\<newline>'')). \<not> startsWith l (js ''data: '')"
    using that by (simp add: for_lines_unprefixed split: prod.splits)
  from skip stop first_done all_skipped show ?thesis by blast
qed

theorem unprefixed_segments_ignored_witness:
  "\<not> startsWith (js '': keep-alive'') (js ''data: '')
   \<and> is_done (js ''data: [DONE]'')
   \<and> for_lines [js '': keep-alive'', js ''data: [DONE]'', js ''''] = ([], Some Return)
   \<and> generator [js '': keep-alive\<newline>\<newline>data: [DONE]\<newline>\<newline>'', js ''data: 1\<newline>\<newline>''] = ([], Return)
   \<and> generator [js '': keep-alive\<newline>\<newline>'', js '': keep-alive\<newline>\<newline>data: [DONE]\<newline>\<newline>''] = ([], Return)"
proof -
  let ?k = "js '': keep-alive''" and ?d = "js ''data: [DONE]''"
  let ?c = "js '': keep-alive\<newline>\<newline>data: [DONE]\<newline>\<newline>''"
  let ?c' = "js '': keep-alive\<newline>\<newline>''"
  have h1: "\<not> startsWith ?k (js ''data: '')" by code_simp
  have h1': "\<not> startsWith (js '''') (js ''data: '')" by code_simp
  have h2: "is_done ?d" by code_simp
  have h3: "split ?c (js ''\<newline>\<newline>'') = [?k] @ ?d # [js '''']" by code_simp
  have h4: "split ?c' (js ''\<newline>\<newline>'') = [?k, js '''']" by code_simp
  have a: "for_lines [?k, ?d, js ''''] = ([], Some Return)"
    using unprefixed_segments_ignored [where line = ?k and lines = "[?d, js '''']"]
      unprefixed_segments_ignored [where line = ?d and lines = "[js '''']"] h1 h2 by simp
  have b: "generator [?c, js ''data: 1\<newline>\<newline>''] = ([], Return)"
    using unprefixed_segments_ignored [where line = ?d and lines = "[js '''']" and pre = "[?k]"
        and chunk = ?c and chunks = "[js ''data: 1\<newline>\<newline>'']"] h1 h2 h3
    by simp
  have c: "generator [?c', ?c] = generator [?c]"
    using unprefixed_segments_ignored [where chunk = ?c' and chunks = "[?c]"] h1 h1' h4 by simp
  have d: "generator [?c] = ([], Return)"
    using unprefixed_segments_ignored [where line = ?d and lines = "[js '''']" and pre = "[?k]"
        and chunk = ?c and chunks = "[]"] h1 h2 h3
    by simp
  from h1 h2 a b c d show ?thesis by simp
qed

text \<open>
  C10. Once a segment whose payload trims to \<open>[DONE]\<close> is met, the generator yields
  nothing more: the responses are those of the segments before it, the later segments
  of the same chunk are not processed, and neither is any later chunk.
\<close>

theorem nothing_after_done:
  assumes "is_done d"
  shows "for_lines (pre @ d # post) =
           (case for_lines pre of (rs, None) \<Rightarrow> (rs, Some Return) | (rs, Some c) \<Rightarrow> (rs, Some c))
         \<and> (split chunk (js ''\<newline>\<newline>'') = pre @ d # post \<longrightarrow>
              generator (chunk # after) =
                (case for_lines pre of (rs, None) \<Rightarrow> (rs, Return) | (rs, Some c) \<Rightarrow> (rs, c))
              \<and> generator (before @ chunk # after) = generator (before @ [chunk]))"
proof -
  have a: "for_lines (pre @ d # post) =
           (case for_lines pre of (rs, None) \<Rightarrow> (rs, Some Return) | (rs, Some c) \<Rightarrow> (rs, Some c))"
    by (simp add: for_lines_append for_lines_done [OF assms] del: for_lines.simps
          split: prod.splits option.splits)
  then obtain rs c where e: "for_lines (pre @ d # post) = (rs, Some c)"
    by (auto split: prod.splits option.splits)
  have "generator (chunk # after) =
          (case for_lines pre of (rs, None) \<Rightarrow> (rs, Return) | (rs, Some c) \<Rightarrow> (rs, c))"
    and "generator (before @ chunk # after) = generator (before @ [chunk])"
    if s: "split chunk (js ''\<newline>\<newline>'') = pre @ d # post"
  proof -
    show "generator (chunk # after) =
          (case for_lines pre of (rs, None) \<Rightarrow> (rs, Return) | (rs, Some c) \<Rightarrow> (rs, c))"
      using a by (simp add: s del: for_lines.simps split: prod.splits option.splits)
    show "generator (before @ chunk # after) = generator (before @ [chunk])"
      using e s generator_ended [of chunk rs c before after] by simp
  qed
  with a show ?thesis by blast
qed

theorem nothing_after_done_witness:
  "is_done (js ''data: [DONE]'')
   \<and> for_lines [js ''data: [DONE]'', js ''data: {\"choices\":[]}'', js ''''] = ([], Some Return)
   \<and> generator [js ''data: [DONE]\<newline>\<newline>data: {\"choices\":[]}\<newline>\<newline>'',
                 js ''data: {\"choices\":[]}\<newline>\<newline>''] = ([], Return)"
proof -
  let ?d = "js ''data: [DONE]''" and ?e = "js ''data: {\"choices\":[]}''"
  let ?c = "js ''data: [DONE]\<newline>\<newline>data: {\"choices\":[]}\<newline>\<newline>''"
  have h: "is_done ?d" by code_simp
  have s: "split ?c (js ''\<newline>\<newline>'') = [] @ ?d # [?e, js '''']" by code_simp
  from nothing_after_done [OF h, where pre = "[]" and post = "[?e, js '''']" and chunk = ?c
      and after = "[js ''data: {\"choices\":[]}\<newline>\<newline>'']" and before = "[]"] h s
  show ?thesis by simp
qed

text \<open>
  C1. When the transport delivers the three frames of the example, each as one read,
  the sequence yields exactly two responses, whose \<open>text\<close> is \<open>He\<close> and then
  \<open>llo\<close>, each choice's delta having become its message, and it ends after the second
  by a return.
\<close>

theorem three_frames_two_responses:
  "generator [frame_He, frame_llo, frame_DONE] = ([response_He, response_llo], Return)
   \<and> get_text response_He = Inr (Str (js ''He''))
   \<and> get_text response_llo = Inr (Str (js ''llo''))
   \<and> fst (generateContentStream this request
            \<lparr>replies = (\<lambda>n. Inr \<lparr>status = 200, statusText = js ''OK'',
                                   body = Some [frame_He, frame_llo, frame_DONE]\<rparr>),
             sent = []\<rparr>)
       = Fulfilled ([response_He, response_llo], Return)"
proof -
  have g: "generator [frame_He, frame_llo, frame_DONE] = ([response_He, response_llo], Return)"
    by code_simp
  have "get_text response_He = Inr (Str (js ''He''))"
    and "get_text response_llo = Inr (Str (js ''llo''))"
    by code_simp+
  with g show ?thesis
    by (simp add: generateContentStream_def fetch_def ok_def)
qed

text \<open>
  C2. There is a delivery of a well-formed stream in which an event straddles two
  reads: the stream of the three frames, cut inside its second event. Delivered in one
  read, the stream decodes to its two responses. Delivered in the two reads, the split
  of the first read ends in a truncated segment that starts with \<open>data: \<close>; parsing
  its payload fails, and the sequence ends by throwing the SyntaxError after the first
  response.
\<close>

theorem straddling_event_aborts:
  "js ''data: {\"choices\":[{\"index\":0,\"delta\":{\"content\":\"He\"},\"finish_reason\":null}]}\<newline>\<newline>data: {\"choices\":[{\"index\":0,\"del''
     @ js ''ta\":{\"content\":\"llo\"},\"finish_reason\":\"stop\"}]}\<newline>\<newline>data: [DONE]\<newline>\<newline>''
     = frame_He @ frame_llo @ frame_DONE
   \<and> generator [frame_He @ frame_llo @ frame_DONE] = ([response_He, response_llo], Return)
   \<and> last (split (js ''data: {\"choices\":[{\"index\":0,\"delta\":{\"content\":\"He\"},\"finish_reason\":null}]}\<newline>\<newline>data: {\"choices\":[{\"index\":0,\"del'')
                  (js ''\<newline>\<newline>''))
       = js ''data: {\"choices\":[{\"index\":0,\"del''
   \<and> startsWith (js ''data: {\"choices\":[{\"index\":0,\"del'') (js ''data: '')
   \<and> JSON_parse (substring (js ''data: {\"choices\":[{\"index\":0,\"del'') (length (js ''data: '')))
       = Inl SyntaxError
   \<and> generator
        [js ''data: {\"choices\":[{\"index\":0,\"delta\":{\"content\":\"He\"},\"finish_reason\":null}]}\<newline>\<newline>data: {\"choices\":[{\"index\":0,\"del'',
         js ''ta\":{\"content\":\"llo\"},\"finish_reason\":\"stop\"}]}\<newline>\<newline>data: [DONE]\<newline>\<newline>'']
       = ([response_He], Throw SyntaxError)"
  by (intro conjI; code_simp)

end
